theory Spec2Isabelle
  imports Complex_Main
begin

section \<open>The finetuning driver \<open>finetune_generation.py\<close>\<close>

text \<open>
  The script is one function, \<open>main\<close>, that configures and calls an external framework.
  The embedding keeps the control flow of \<open>main\<close> as it is written and makes the calls
  into the framework observable: every call is an event of a trace, in the order in which
  the script issues it, and every object the framework hands back is a symbolic value that
  records the call and the arguments it came from. The two \<open>raise ValueError\<close> statements
  are values of a sum type. What the script reads from outside (the parsed arguments, the
  file system, the configuration of a loaded model) is a parameter.
\<close>

subsection \<open>The argument dataclasses\<close>

text \<open>
  \<open>DataArgument\<close> and \<open>ModelArgument\<close> are declared in the script (lines 38-71); floats are
  rationals. \<open>always_pad_to_max_length\<close> is no declared field: \<open>main\<close> attaches it on line 77,
  so it is absent (\<open>None\<close>) in a freshly parsed object.
\<close>

record DataArgument =
  task_name :: string
  src_length :: int
  tgt_length :: int
  min_tgt_length :: int
  length_penalty :: rat
  no_repeat_ngram_size :: int
  num_beams :: int
  select_topk :: bool
  top_p :: rat
  top_k :: int
  always_pad_to_max_length :: "bool option"

record ModelArgument =
  model_name_or_path :: string
  lr_decay_ratio :: rat
  lora :: bool
  use_flash_attention :: bool
  eval_with_do_generation :: bool
  prefix_tuning :: bool

text \<open>
  \<open>TrainingArguments\<close> is a class of the framework. The record has the attributes that
  \<open>main\<close> reads, and \<open>ta_lr_decay_ratio\<close> for the attribute that line 83 attaches with
  \<open>setattr\<close>.
\<close>

record TrainingArguments =
  device :: string
  local_rank :: int
  world_size :: int
  fp16 :: bool
  bf16 :: bool
  fp16_opt_level :: string
  output_dir :: string
  do_train :: bool
  do_eval :: bool
  overwrite_output_dir :: bool
  resume_from_checkpoint :: "string option"
  pipeline_parallel_degree :: int
  tensor_parallel_degree :: int
  tensor_parallel_rank :: int
  recompute :: bool
  ta_lr_decay_ratio :: "rat option"

subsection \<open>Objects handed back by the framework\<close>

datatype model_class = AutoModelForCausalLM | LlamaForCausalLMPipe

record from_pretrained_args =
  fp_name :: string
  fp_load_state_as_np :: bool
  fp_low_cpu_mem_usage :: bool
  fp_dtype :: string
  fp_tensor_parallel_degree :: int
  fp_tensor_parallel_rank :: int
  fp_fp16_opt_level :: string
  fp_use_flash_attention :: bool
  fp_use_recompute :: bool

record LoRAConfig =
  target_modules :: "string list"
  r :: int
  lora_alpha :: int
  merge_weights :: bool
  lc_tensor_parallel_degree :: int
  lc_dtype :: string

record PrefixConfig =
  num_prefix_tokens :: int
  num_attention_heads :: int
  num_hidden_layers :: int
  hidden_size :: int
  prefix_projection :: bool
  prefix_projection_hidden_size :: int
  pc_dtype :: string

text \<open>
  A model is the result of \<open>from_pretrained\<close>, possibly wrapped. The third argument of
  \<open>PrefixModelForCausalLM\<close>, \<open>postprocess_past_key_value\<close>, is always the constant
  \<open>llama_postprocess_past_key_value\<close> and is left out.
\<close>

datatype model =
    FromPretrained model_class from_pretrained_args
  | LoRAModel model LoRAConfig
  | PrefixModelForCausalLM model PrefixConfig

text \<open>The attributes of \<open>model.config\<close> that lines 154-158 read.\<close>

record llama_config =
  n_head :: int
  n_layer :: int
  cfg_hidden_size :: int

text \<open>
  The tokenizer: where it was loaded from, its padding side, and whether its pad token
  is still its own or has been replaced by its unknown token (line 173).
\<close>

datatype pad_token = OwnPadToken | UnkToken

record tokenizer =
  tk_name :: string
  padding_side :: string
  tk_pad_token :: pad_token

text \<open>
  A dataset is a split returned by \<open>load_dataset\<close>, or the result of \<open>map\<close> with
  \<open>partial(convert_example, tokenizer=..., data_args=...)\<close>; the last argument is the
  keyword \<open>is_test\<close>, \<open>None\<close> when the script does not pass it.
\<close>

datatype dataset =
    LoadedSplit string string
  | MapConvert dataset tokenizer DataArgument "bool option"

datatype collator = DataCollatorForSupervisedDataset tokenizer

text \<open>\<open>partial(compute_metrics_trainer, tokenizer=tokenizer)\<close>, lines 206-209.\<close>

datatype metrics_func = ComputeMetricsTrainer tokenizer

record LlamaTrainer =
  tr_model :: model
  tr_args :: TrainingArguments
  train_dataset :: "dataset option"
  eval_dataset :: "dataset option"
  tr_tokenizer :: tokenizer
  tr_compute_metrics :: "metrics_func option"
  do_generation :: bool
  data_collator :: collator

subsection \<open>What the script reads from outside\<close>

record environment =
  isdir :: "string \<Rightarrow> bool"
  listdir :: "string \<Rightarrow> string list"
  get_last_checkpoint :: "string \<Rightarrow> string option"
  model_config :: "model \<Rightarrow> llama_config"

subsection \<open>Calls into the framework, and errors\<close>

datatype event =
    ParseArgs
  | PrintConfig string
  | SetDevice string
  | SetSeed
  | LogWarning
  | LogInfo
  | ModelFromPretrained model_class from_pretrained_args
  | NewLoRAModel model LoRAConfig
  | MarkOnlyLoraAsTrainable
  | NewPrefixModel model PrefixConfig
  | MarkOnlyPrefixAsTrainable
  | PrintTrainableParameters
  | TokenizerFromPretrained string string
  | LoadDataset string "string list"
  | MapDataset dataset "bool option"
  | NewCollator tokenizer
  | NewTrainer LlamaTrainer
  | Train "string option"
  | SaveModel bool
  | LogMetrics string
  | SaveMetrics string
  | SaveState
  | Evaluate

datatype error = ValueError string

text \<open>The messages of the two \<open>raise\<close> statements (lines 100-103 and 121).\<close>

definition output_dir_message :: "string \<Rightarrow> string" where
  "output_dir_message dir =
     ''Output directory ('' @ dir @ '') already exists and is not empty. ''
     @ ''Use --overwrite_output_dir to overcome.''"

definition pipeline_message :: string where
  "pipeline_message = ''Plese set eval_with_do_generation to false in pipeline parallel mode.''"

subsection \<open>The stages of \<open>main\<close>\<close>

text \<open>Lines 75-93: the parsed arguments, two attributes attached to them, and set-up.\<close>

definition parse_and_configure ::
  "ModelArgument \<Rightarrow> DataArgument \<Rightarrow> TrainingArguments
     \<Rightarrow> event list \<times> DataArgument \<times> TrainingArguments" where
  "parse_and_configure model_args parsed_data_args parsed_training_args =
     (let t_parse = [ParseArgs];
          data_args = parsed_data_args\<lparr>always_pad_to_max_length := Some False\<rparr>;
          t_print = [PrintConfig ''Model'', PrintConfig ''Data''];
          training_args =
            parsed_training_args\<lparr>ta_lr_decay_ratio := Some (lr_decay_ratio model_args)\<rparr>;
          t_device = [SetDevice (device training_args), SetSeed, LogWarning]
      in (t_parse @ t_print @ t_device, data_args, training_args))"

text \<open>Lines 95-108: detecting the last checkpoint.\<close>

definition detect_last_checkpoint ::
  "environment \<Rightarrow> TrainingArguments \<Rightarrow> error + (event list \<times> string option)" where
  "detect_last_checkpoint env training_args =
     (if isdir env (output_dir training_args) \<and> do_train training_args
         \<and> \<not> overwrite_output_dir training_args
      then
        (let last_checkpoint = get_last_checkpoint env (output_dir training_args) in
         if last_checkpoint = None \<and> length (listdir env (output_dir training_args)) > 1
         then Inl (ValueError (output_dir_message (output_dir training_args)))
         else if last_checkpoint \<noteq> None \<and> resume_from_checkpoint training_args = None
         then Inr ([LogInfo], last_checkpoint)
         else Inr ([], last_checkpoint))
      else Inr ([], None))"

text \<open>Lines 110-116: the dtype for loading the model.\<close>

definition select_dtype :: "TrainingArguments \<Rightarrow> string" where
  "select_dtype training_args =
     (let dtype = ''float32'' in
      if fp16_opt_level training_args = ''O2''
      then
        (let dtype = (if fp16 training_args then ''float16'' else dtype) in
         if bf16 training_args then ''bfloat16'' else dtype)
      else dtype)"

text \<open>Lines 118-122: the model class.\<close>

definition select_model_class ::
  "ModelArgument \<Rightarrow> TrainingArguments \<Rightarrow> error + model_class" where
  "select_model_class model_args training_args =
     (if pipeline_parallel_degree training_args > 1
      then
        (if eval_with_do_generation model_args \<and> do_eval training_args
         then Inl (ValueError pipeline_message)
         else Inr LlamaForCausalLMPipe)
      else Inr AutoModelForCausalLM)"

text \<open>Lines 124-135: loading the pretrained model.\<close>

definition load_model ::
  "model_class \<Rightarrow> ModelArgument \<Rightarrow> TrainingArguments \<Rightarrow> string \<Rightarrow> event list \<times> model" where
  "load_model cls model_args training_args dtype =
     (let args = \<lparr> fp_name = model_name_or_path model_args,
                   fp_load_state_as_np = True,
                   fp_low_cpu_mem_usage = True,
                   fp_dtype = dtype,
                   fp_tensor_parallel_degree = tensor_parallel_degree training_args,
                   fp_tensor_parallel_rank = tensor_parallel_rank training_args,
                   fp_fp16_opt_level = fp16_opt_level training_args,
                   fp_use_flash_attention = use_flash_attention model_args,
                   fp_use_recompute = recompute training_args \<rparr>
      in ([ModelFromPretrained cls args], FromPretrained cls args))"

text \<open>Lines 137-149: the low-rank adapter.\<close>

definition apply_lora ::
  "ModelArgument \<Rightarrow> TrainingArguments \<Rightarrow> string \<Rightarrow> model \<Rightarrow> event list \<times> model" where
  "apply_lora model_args training_args dtype m =
     (if lora model_args
      then
        (let lora_config = \<lparr> target_modules = [''.*q_proj.*'', ''.*v_proj.*''],
                             r = 4,
                             lora_alpha = 8,
                             merge_weights = False,
                             lc_tensor_parallel_degree = tensor_parallel_degree training_args,
                             lc_dtype = dtype \<rparr>
         in ([NewLoRAModel m lora_config, MarkOnlyLoraAsTrainable, PrintTrainableParameters],
             LoRAModel m lora_config))
      else ([], m))"

text \<open>Lines 151-167: prefix tuning, on the model as it is after lines 137-149.\<close>

definition apply_prefix ::
  "environment \<Rightarrow> ModelArgument \<Rightarrow> string \<Rightarrow> model \<Rightarrow> event list \<times> model" where
  "apply_prefix env model_args dtype m =
     (if prefix_tuning model_args
      then
        (let prefix_config = \<lparr> num_prefix_tokens = 10,
                               num_attention_heads = n_head (model_config env m),
                               num_hidden_layers = n_layer (model_config env m),
                               hidden_size = cfg_hidden_size (model_config env m),
                               prefix_projection = True,
                               prefix_projection_hidden_size = cfg_hidden_size (model_config env m),
                               pc_dtype = dtype \<rparr>
         in ([NewPrefixModel m prefix_config, MarkOnlyPrefixAsTrainable, PrintTrainableParameters],
             PrefixModelForCausalLM m prefix_config))
      else ([], m))"

text \<open>Lines 169-173: the tokenizer, with its pad token replaced.\<close>

definition load_tokenizer :: "ModelArgument \<Rightarrow> event list \<times> tokenizer" where
  "load_tokenizer model_args =
     (let tok = \<lparr> tk_name = model_name_or_path model_args,
                  padding_side = ''left'',
                  tk_pad_token = OwnPadToken \<rparr>
      in ([TokenizerFromPretrained (model_name_or_path model_args) ''left''],
          tok\<lparr>tk_pad_token := UnkToken\<rparr>))"

text \<open>
  Lines 175-185: the datasets. \<open>train_ds\<close> and \<open>dev_ds\<close> are bound only when line 176
  holds, hence the option.
\<close>

definition build_datasets ::
  "ModelArgument \<Rightarrow> DataArgument \<Rightarrow> TrainingArguments \<Rightarrow> tokenizer
     \<Rightarrow> event list \<times> (dataset \<times> dataset) option" where
  "build_datasets model_args data_args training_args tok =
     (if do_train training_args \<or> do_eval training_args
      then
        (let train_ds = LoadedSplit (task_name data_args) ''train_v1'';
             dev_ds = LoadedSplit (task_name data_args) ''dev_v1'';
             t_load = [LoadDataset (task_name data_args) [''train_v1'', ''dev_v1'']];
             (t_train, train_ds) =
               (if do_train training_args
                then ([MapDataset train_ds None], MapConvert train_ds tok data_args None)
                else ([], train_ds));
             (t_dev, dev_ds) =
               (if do_eval training_args
                then (let is_test = eval_with_do_generation model_args
                      in ([MapDataset dev_ds (Some is_test)],
                          MapConvert dev_ds tok data_args (Some is_test)))
                else ([], dev_ds))
         in (t_load @ t_train @ t_dev, Some (train_ds, dev_ds)))
      else ([], None))"

text \<open>Lines 187-222: the collator and the trainer.\<close>

definition build_trainer ::
  "ModelArgument \<Rightarrow> TrainingArguments \<Rightarrow> model \<Rightarrow> tokenizer
     \<Rightarrow> (dataset \<times> dataset) option \<Rightarrow> event list \<times> LlamaTrainer" where
  "build_trainer model_args training_args m tok ds =
     (let collate_fn = DataCollatorForSupervisedDataset tok;
          compute_metrics_func = ComputeMetricsTrainer tok;
          trainer = \<lparr> tr_model = m,
                      tr_args = training_args,
                      train_dataset = (if do_train training_args then map_option fst ds else None),
                      eval_dataset = (if do_eval training_args then map_option snd ds else None),
                      tr_tokenizer = tok,
                      tr_compute_metrics =
                        (if eval_with_do_generation model_args \<and> do_eval training_args
                         then Some compute_metrics_func else None),
                      do_generation = eval_with_do_generation model_args,
                      data_collator = collate_fn \<rparr>
      in ([NewCollator tok, NewTrainer trainer], trainer))"

text \<open>Lines 224-233: training and evaluation.\<close>

definition run_trainer :: "TrainingArguments \<Rightarrow> string option \<Rightarrow> event list" where
  "run_trainer training_args last_checkpoint =
     (if do_train training_args
      then [Train last_checkpoint,
            SaveModel (tensor_parallel_degree training_args > 1),
            LogMetrics ''train'',
            SaveMetrics ''train'',
            SaveState]
      else [])
     @ (if do_eval training_args then [Evaluate, LogMetrics ''test''] else [])"

subsection \<open>\<open>main\<close>\<close>

text \<open>
  \<open>main\<close> takes the three objects that \<open>parse_args_into_dataclasses\<close> returned and gives
  the trace of its calls together with its outcome: \<open>Inl\<close> the exception it raised, or
  \<open>Inr ()\<close> when it ran to its end.
\<close>

definition main ::
  "environment \<Rightarrow> ModelArgument \<Rightarrow> DataArgument \<Rightarrow> TrainingArguments
     \<Rightarrow> event list \<times> (error + unit)" where
  "main env model_args parsed_data_args parsed_training_args =
     (let (t_conf, data_args, training_args) =
            parse_and_configure model_args parsed_data_args parsed_training_args
      in case detect_last_checkpoint env training_args of
           Inl e \<Rightarrow> (t_conf, Inl e)
         | Inr (t_ckpt, last_checkpoint) \<Rightarrow>
             (let dtype = select_dtype training_args in
              case select_model_class model_args training_args of
                Inl e \<Rightarrow> (t_conf @ t_ckpt, Inl e)
              | Inr cls \<Rightarrow>
                  (let (t_load, m) = load_model cls model_args training_args dtype;
                       (t_lora, m) = apply_lora model_args training_args dtype m;
                       (t_prefix, m) = apply_prefix env model_args dtype m;
                       (t_tok, tok) = load_tokenizer model_args;
                       (t_data, ds) = build_datasets model_args data_args training_args tok;
                       (t_trainer, trainer) = build_trainer model_args training_args m tok ds;
                       t_run = run_trainer training_args last_checkpoint
                   in (t_conf @ t_ckpt @ t_load @ t_lora @ t_prefix @ t_tok @ t_data
                         @ t_trainer @ t_run,
                       Inr ()))))"

subsection \<open>\<open>compute_metrics_trainer\<close>\<close>









subsection \<open>Reading a trace\<close>

fun is_model_load :: "event \<Rightarrow> bool" where
  "is_model_load (ModelFromPretrained _ _) = True"
| "is_model_load _ = False"

fun is_tokenizer_load :: "event \<Rightarrow> bool" where
  "is_tokenizer_load (TokenizerFromPretrained _ _) = True"
| "is_tokenizer_load _ = False"

fun is_wrap :: "event \<Rightarrow> bool" where
  "is_wrap (NewLoRAModel _ _) = True"
| "is_wrap (NewPrefixModel _ _) = True"
| "is_wrap _ = False"


fun is_dataset_load :: "event \<Rightarrow> bool" where
  "is_dataset_load (LoadDataset _ _) = True"
| "is_dataset_load _ = False"

fun is_new_trainer :: "event \<Rightarrow> bool" where
  "is_new_trainer (NewTrainer _) = True"
| "is_new_trainer _ = False"

text \<open>The trainers constructed by an event: one for \<open>NewTrainer\<close>, none otherwise.\<close>

fun trainer_of :: "event \<Rightarrow> LlamaTrainer list" where
  "trainer_of (NewTrainer t) = [t]"
| "trainer_of _ = []"

definition trainers :: "event list \<Rightarrow> LlamaTrainer list" where
  "trainers tr = concat (map trainer_of tr)"

fun is_trainer_call :: "event \<Rightarrow> bool" where
  "is_trainer_call (Train _) = True"
| "is_trainer_call (SaveModel _) = True"
| "is_trainer_call (LogMetrics _) = True"
| "is_trainer_call (SaveMetrics _) = True"
| "is_trainer_call SaveState = True"
| "is_trainer_call Evaluate = True"
| "is_trainer_call _ = False"

text \<open>
  The step of the script an event belongs to: parsing (0), set-up (1), loading the model
  (2), wrapping it (3), loading the tokenizer (4), building the datasets (5), constructing
  the trainer (6), training and evaluation (7).
\<close>

fun step_of :: "event \<Rightarrow> nat" where
  "step_of ParseArgs = 0"
| "step_of (PrintConfig _) = 1"
| "step_of (SetDevice _) = 1"
| "step_of SetSeed = 1"
| "step_of LogWarning = 1"
| "step_of LogInfo = 1"
| "step_of (ModelFromPretrained _ _) = 2"
| "step_of (NewLoRAModel _ _) = 3"
| "step_of MarkOnlyLoraAsTrainable = 3"
| "step_of (NewPrefixModel _ _) = 3"
| "step_of MarkOnlyPrefixAsTrainable = 3"
| "step_of PrintTrainableParameters = 3"
| "step_of (TokenizerFromPretrained _ _) = 4"
| "step_of (LoadDataset _ _) = 5"
| "step_of (MapDataset _ _) = 5"
| "step_of (NewCollator _) = 6"
| "step_of (NewTrainer _) = 6"
| "step_of (Train _) = 7"
| "step_of (SaveModel _) = 7"
| "step_of (LogMetrics _) = 7"
| "step_of (SaveMetrics _) = 7"
| "step_of SaveState = 7"
| "step_of Evaluate = 7"

text \<open>\<open>main\<close> ran to its end, and \<open>main\<close> raised a \<open>ValueError\<close>.\<close>

definition completes ::
  "environment \<Rightarrow> ModelArgument \<Rightarrow> DataArgument \<Rightarrow> TrainingArguments \<Rightarrow> bool" where
  "completes env model_args data_args training_args \<longleftrightarrow>
     snd (main env model_args data_args training_args) = Inr ()"

fun is_ValueError :: "error + unit \<Rightarrow> bool" where
  "is_ValueError (Inl (ValueError _)) = True"
| "is_ValueError (Inr _) = False"

subsection \<open>Concrete inputs\<close>

text \<open>The defaults of the two dataclasses of the script (lines 38-71).\<close>

definition default_DataArgument :: DataArgument where
  "default_DataArgument =
     \<lparr> task_name = ''squad'', src_length = 1024, tgt_length = 142, min_tgt_length = 0,
       length_penalty = 7 / 10, no_repeat_ngram_size = 3, num_beams = 5, select_topk = True,
       top_p = 0, top_k = 0, always_pad_to_max_length = None \<rparr>"

definition default_ModelArgument :: ModelArgument where
  "default_ModelArgument =
     \<lparr> model_name_or_path = ''facebook/llama-7b'', lr_decay_ratio = 1 / 10, lora = False,
       use_flash_attention = False, eval_with_do_generation = True, prefix_tuning = False \<rparr>"

text \<open>
  Training arguments for a single-device run that trains and evaluates in half precision,
  and an output directory \<open>out\<close> that does not exist yet.
\<close>

definition example_TrainingArguments :: TrainingArguments where
  "example_TrainingArguments =
     \<lparr> device = ''gpu'', local_rank = - 1, world_size = 1, fp16 = True, bf16 = False,
       fp16_opt_level = ''O2'', output_dir = ''out'', do_train = True, do_eval = True,
       overwrite_output_dir = False, resume_from_checkpoint = None,
       pipeline_parallel_degree = 1, tensor_parallel_degree = 1, tensor_parallel_rank = 0,
       recompute = False, ta_lr_decay_ratio = None \<rparr>"

text \<open>The same run with two pipeline stages.\<close>

definition pipeline_TrainingArguments :: TrainingArguments where
  "pipeline_TrainingArguments = example_TrainingArguments\<lparr>pipeline_parallel_degree := 2\<rparr>"

definition example_config :: llama_config where
  "example_config = \<lparr> n_head = 32, n_layer = 32, cfg_hidden_size = 4096 \<rparr>"

definition fresh_environment :: environment where
  "fresh_environment =
     \<lparr> isdir = (\<lambda>_. False), listdir = (\<lambda>_. []), get_last_checkpoint = (\<lambda>_. None),
       model_config = (\<lambda>_. example_config) \<rparr>"

text \<open>
  An environment in which every directory exists, holds the listed entries and has no
  checkpoint.
\<close>

definition used_environment :: "string list \<Rightarrow> environment" where
  "used_environment entries =
     \<lparr> isdir = (\<lambda>_. True), listdir = (\<lambda>_. entries), get_last_checkpoint = (\<lambda>_. None),
       model_config = (\<lambda>_. example_config) \<rparr>"




text \<open>Model arguments that ask for both adapters at once.\<close>

definition adapter_ModelArgument :: ModelArgument where
  "adapter_ModelArgument = default_ModelArgument\<lparr>lora := True, prefix_tuning := True\<rparr>"

text \<open>Model arguments that evaluate without generation, as pipeline parallel mode asks.\<close>

definition no_generation_ModelArgument :: ModelArgument where
  "no_generation_ModelArgument = default_ModelArgument\<lparr>eval_with_do_generation := False\<rparr>"

section \<open>Properties of the stages\<close>

text \<open>
  The attribute that line 83 attaches to the training arguments is read by no later stage.
\<close>

lemma detect_attach [simp]:
  "detect_last_checkpoint env (ta\<lparr>ta_lr_decay_ratio := x\<rparr>) = detect_last_checkpoint env ta"
  by (simp add: detect_last_checkpoint_def Let_def cong: if_cong)

lemma select_model_class_attach [simp]:
  "select_model_class ma (ta\<lparr>ta_lr_decay_ratio := x\<rparr>) = select_model_class ma ta"
  by (simp add: select_model_class_def cong: if_cong)

lemma select_dtype_attach [simp]:
  "select_dtype (ta\<lparr>ta_lr_decay_ratio := x\<rparr>) = select_dtype ta"
  by (simp add: select_dtype_def Let_def cong: if_cong)

lemma run_trainer_attach [simp]:
  "run_trainer (ta\<lparr>ta_lr_decay_ratio := x\<rparr>) lc = run_trainer ta lc"
  by (simp add: run_trainer_def cong: if_cong)

text \<open>The three ways through \<open>main\<close>: either guard raises, or the script runs to its end.\<close>

lemma main_raise_first:
  "detect_last_checkpoint env ta = Inl e \<Longrightarrow>
   main env ma da ta = (fst (parse_and_configure ma da ta), Inl e)"
  by (simp add: main_def parse_and_configure_def)

lemma main_raise_second:
  "detect_last_checkpoint env ta = Inr (t_ckpt, lc) \<Longrightarrow> select_model_class ma ta = Inl e \<Longrightarrow>
   main env ma da ta = (fst (parse_and_configure ma da ta) @ t_ckpt, Inl e)"
  by (simp add: main_def parse_and_configure_def)

lemma main_runs:
  assumes "detect_last_checkpoint env ta = Inr (t_ckpt, lc)"
    and "select_model_class ma ta = Inr cls"
  shows "main env ma da ta =
    (let (t_conf, da', ta') = parse_and_configure ma da ta;
         dtype = select_dtype ta;
         m0 = snd (load_model cls ma ta' dtype);
         m1 = snd (apply_lora ma ta' dtype m0);
         m2 = snd (apply_prefix env ma dtype m1);
         tok = snd (load_tokenizer ma);
         ds = snd (build_datasets ma da' ta' tok)
     in (t_conf @ t_ckpt @ fst (load_model cls ma ta' dtype) @ fst (apply_lora ma ta' dtype m0)
           @ fst (apply_prefix env ma dtype m1) @ fst (load_tokenizer ma)
           @ fst (build_datasets ma da' ta' tok) @ fst (build_trainer ma ta' m2 tok ds)
           @ run_trainer ta lc,
         Inr ()))"
  using assms by (simp add: main_def parse_and_configure_def Let_def split: prod.splits)

lemma completes_iff:
  "completes env ma da ta \<longleftrightarrow>
     (\<exists>t lc. detect_last_checkpoint env ta = Inr (t, lc)) \<and> (\<exists>cls. select_model_class ma ta = Inr cls)"
  by (auto simp add: completes_def main_def parse_and_configure_def Let_def split: prod.splits sum.splits)

lemma detect_Inr:
  assumes "detect_last_checkpoint env ta = Inr (t, lc)"
  shows "(t = [] \<or> t = [LogInfo]) \<and>
         lc = (if isdir env (output_dir ta) \<and> do_train ta \<and> \<not> overwrite_output_dir ta
               then get_last_checkpoint env (output_dir ta) else None)"
  using assms by (auto simp add: detect_last_checkpoint_def Let_def split: if_splits)

lemmas stage_defs = parse_and_configure_def load_model_def apply_lora_def apply_prefix_def
  load_tokenizer_def build_datasets_def build_trainer_def run_trainer_def

lemma messages_differ: "output_dir_message dir \<noteq> pipeline_message"
  by (simp add: output_dir_message_def pipeline_message_def)

lemma select_Inr:
  "select_model_class ma ta = Inr cls \<longleftrightarrow>
     \<not> (pipeline_parallel_degree ta > 1 \<and> eval_with_do_generation ma \<and> do_eval ta)
     \<and> cls = (if pipeline_parallel_degree ta > 1 then LlamaForCausalLMPipe
              else AutoModelForCausalLM)"
  by (auto simp add: select_model_class_def split: if_splits)

lemma conf_no_model_load:
  "filter is_model_load (fst (parse_and_configure ma da ta)) = []"
  by (simp add: parse_and_configure_def)

lemma main_outcome:
  "snd (main env ma da ta) =
     (case detect_last_checkpoint env ta of
        Inl e \<Rightarrow> Inl e
      | Inr _ \<Rightarrow> (case select_model_class ma ta of Inl e \<Rightarrow> Inl e | Inr _ \<Rightarrow> Inr ()))"
  by (simp add: main_def parse_and_configure_def Let_def split: prod.splits sum.splits)

lemma main_outcome_eq:
  "snd (main env ma da ta) =
     (if isdir env (output_dir ta) \<and> do_train ta \<and> \<not> overwrite_output_dir ta
         \<and> get_last_checkpoint env (output_dir ta) = None
         \<and> length (listdir env (output_dir ta)) > 1
      then Inl (ValueError (output_dir_message (output_dir ta)))
      else if pipeline_parallel_degree ta > 1 \<and> eval_with_do_generation ma \<and> do_eval ta
      then Inl (ValueError pipeline_message)
      else Inr ())"
  by (simp add: main_outcome detect_last_checkpoint_def select_model_class_def Let_def)

lemma raise_no_model_load:
  assumes "is_ValueError (snd (main env ma da ta))"
  shows "filter is_model_load (fst (main env ma da ta)) = []"
proof (cases "detect_last_checkpoint env ta")
  case (Inl e)
  then show ?thesis by (simp add: main_raise_first conf_no_model_load)
next
  case (Inr p)
  obtain t lc where p: "p = (t, lc)" by (cases p)
  from detect_Inr [of env ta t lc] Inr p have t: "filter is_model_load t = []" by auto
  show ?thesis
  proof (cases "select_model_class ma ta")
    case (Inl e)
    with Inr p t show ?thesis by (simp add: main_raise_second conf_no_model_load)
  next
    case r: (Inr cls)
    with Inr p assms show ?thesis by (simp add: main_outcome)
  qed
qed

text \<open>The order of the calls.\<close>

lemma split_after_prefix:
  "xs @ ys = pre @ e # post \<Longrightarrow> \<forall>x\<in>set xs. \<not> Q x \<Longrightarrow> Q e \<Longrightarrow> set xs \<subseteq> set pre"
proof (induction xs arbitrary: pre)
  case Nil
  then show ?case by simp
next
  case (Cons x xs)
  show ?case
  proof (cases pre)
    case Nil
    with Cons.prems show ?thesis by auto
  next
    case (Cons p pre')
    with Cons.prems have "xs @ ys = pre' @ e # post" and "x = p" by auto
    with Cons.IH [of pre'] Cons.prems Cons show ?thesis by auto
  qed
qed

lemma main_starts_with_parse:
  "\<exists>rest. fst (main env ma da ta) = ParseArgs # rest \<and> ParseArgs \<notin> set rest"
proof (cases "detect_last_checkpoint env ta")
  case (Inl e)
  then show ?thesis by (simp add: main_raise_first parse_and_configure_def)
next
  case (Inr p)
  obtain t lc where p: "p = (t, lc)" by (cases p)
  from detect_Inr [of env ta t lc] Inr p have t: "ParseArgs \<notin> set t" by auto
  show ?thesis
  proof (cases "select_model_class ma ta")
    case (Inl e)
    with Inr p t show ?thesis by (simp add: main_raise_second parse_and_configure_def)
  next
    case r: (Inr cls)
    from Inr p have d: "detect_last_checkpoint env ta = Inr (t, lc)" by simp
    show ?thesis using t by (simp add: main_runs [OF d r] stage_defs Let_def)
  qed
qed

lemma main_sorted: "sorted (map step_of (fst (main env ma da ta)))"
proof (cases "detect_last_checkpoint env ta")
  case (Inl e)
  then show ?thesis by (simp add: main_raise_first parse_and_configure_def)
next
  case (Inr p)
  obtain t lc where p: "p = (t, lc)" by (cases p)
  from detect_Inr [of env ta t lc] Inr p have t: "t = [] \<or> t = [LogInfo]" by auto
  show ?thesis
  proof (cases "select_model_class ma ta")
    case (Inl e)
    with Inr p t show ?thesis by (auto simp add: main_raise_second parse_and_configure_def)
  next
    case r: (Inr cls)
    from Inr p have d: "detect_last_checkpoint env ta = Inr (t, lc)" by simp
    show ?thesis using t
      by (auto simp add: main_runs [OF d r] stage_defs Let_def sorted_append)
  qed
qed

lemma main_trainer_calls_last:
  "\<exists>before run. fst (main env ma da ta) = before @ run
     \<and> (\<forall>x\<in>set before. \<not> is_trainer_call x)
     \<and> (\<forall>x\<in>set run. is_trainer_call x)
     \<and> (run \<noteq> [] \<longrightarrow> (\<exists>d\<in>set before. is_dataset_load d) \<and> (\<exists>n\<in>set before. is_new_trainer n))"
proof (cases "detect_last_checkpoint env ta")
  case (Inl e)
  then have "fst (main env ma da ta) = fst (parse_and_configure ma da ta) @ []"
    by (simp add: main_raise_first)
  moreover have "\<forall>x\<in>set (fst (parse_and_configure ma da ta)). \<not> is_trainer_call x"
    by (simp add: parse_and_configure_def)
  ultimately show ?thesis by (intro exI [of _ "fst (parse_and_configure ma da ta)"] exI [of _ "[]"]) simp
next
  case (Inr p)
  obtain t lc where p: "p = (t, lc)" by (cases p)
  from detect_Inr [of env ta t lc] Inr p have t: "\<forall>x\<in>set t. \<not> is_trainer_call x" by auto
  show ?thesis
  proof (cases "select_model_class ma ta")
    case (Inl e)
    with Inr p have "fst (main env ma da ta) = (fst (parse_and_configure ma da ta) @ t) @ []"
      by (simp add: main_raise_second)
    moreover have "\<forall>x\<in>set (fst (parse_and_configure ma da ta) @ t). \<not> is_trainer_call x"
      using t by (simp add: parse_and_configure_def)
    ultimately show ?thesis
      by (intro exI [of _ "fst (parse_and_configure ma da ta) @ t"] exI [of _ "[]"]) simp
  next
    case r: (Inr cls)
    from Inr p have d: "detect_last_checkpoint env ta = Inr (t, lc)" by simp
    define ta' where "ta' = ta\<lparr>ta_lr_decay_ratio := Some (lr_decay_ratio ma)\<rparr>"
    define da' where "da' = da\<lparr>always_pad_to_max_length := Some False\<rparr>"
    define tok where "tok = snd (load_tokenizer ma)"
    define m0 where "m0 = snd (load_model cls ma ta' (select_dtype ta))"
    define m1 where "m1 = snd (apply_lora ma ta' (select_dtype ta) m0)"
    define m2 where "m2 = snd (apply_prefix env ma (select_dtype ta) m1)"
    define ds where "ds = snd (build_datasets ma da' ta' tok)"
    define before where "before = fst (parse_and_configure ma da ta) @ t
        @ fst (load_model cls ma ta' (select_dtype ta)) @ fst (apply_lora ma ta' (select_dtype ta) m0)
        @ fst (apply_prefix env ma (select_dtype ta) m1) @ fst (load_tokenizer ma)
        @ fst (build_datasets ma da' ta' tok) @ fst (build_trainer ma ta' m2 tok ds)"
    have tr: "fst (main env ma da ta) = before @ run_trainer ta lc"
      by (simp add: main_runs [OF d r] before_def ta'_def da'_def tok_def m0_def m1_def m2_def
            ds_def Let_def parse_and_configure_def)
    have b1: "\<forall>x\<in>set before. \<not> is_trainer_call x"
      using t by (simp add: before_def stage_defs Let_def ta'_def)
    have b2: "\<forall>x\<in>set (run_trainer ta lc). is_trainer_call x"
      by (auto simp add: run_trainer_def)
    have b3: "\<exists>n\<in>set before. is_new_trainer n"
      by (simp add: before_def build_trainer_def Let_def)
    have b4: "run_trainer ta lc \<noteq> [] \<longrightarrow> (\<exists>d\<in>set before. is_dataset_load d)"
      by (auto simp add: before_def build_datasets_def run_trainer_def Let_def ta'_def split: if_splits)
    from tr b1 b2 b3 b4 show ?thesis by blast
  qed
qed

lemma main_steps_when_complete:
  assumes "completes env ma da ta"
  shows "remdups_adj (map step_of (fst (main env ma da ta))) =
     [0, 1, 2] @ (if lora ma \<or> prefix_tuning ma then [3] else []) @ [4]
     @ (if do_train ta \<or> do_eval ta then [5] else []) @ [6]
     @ (if do_train ta \<or> do_eval ta then [7] else [])"
proof -
  from assms obtain t lc cls
    where d: "detect_last_checkpoint env ta = Inr (t, lc)"
      and s: "select_model_class ma ta = Inr cls"
    unfolding completes_iff by blast
  from detect_Inr [OF d] have t: "t = [] \<or> t = [LogInfo]" by auto
  show ?thesis
    using t by (auto simp add: main_runs [OF d s] stage_defs Let_def)
qed






section \<open>The claims\<close>

subsection \<open>C1: wrapping the model\<close>

text \<open>
  Claim C1. In every run of \<open>main\<close> that raises no error, exactly one model is loaded; it
  is wrapped in a \<open>LoRAModel\<close> exactly when \<open>model_args.lora\<close> holds; the model as it then
  is (LoRA-wrapped or not) is wrapped in a \<open>PrefixModelForCausalLM\<close> exactly when
  \<open>model_args.prefix_tuning\<close> holds; and the trainer receives the outcome, which is the
  loaded model itself when neither flag is set. The two wrappings do not exclude each
  other: with both flags the trainer's model is the prefix wrapper around the LoRA wrapper.
\<close>

theorem lora_prefix_wrapping:
  assumes "completes env model_args data_args training_args"
  shows "\<exists>cls args lora_config prefix_config.
           (let tr = fst (main env model_args data_args training_args);
                loaded = FromPretrained cls args;
                adapted = (if lora model_args then LoRAModel loaded lora_config else loaded);
                final = (if prefix_tuning model_args
                         then PrefixModelForCausalLM adapted prefix_config else adapted)
            in filter is_model_load tr = [ModelFromPretrained cls args]
             \<and> filter is_wrap tr =
                  (if lora model_args then [NewLoRAModel loaded lora_config] else [])
                  @ (if prefix_tuning model_args then [NewPrefixModel adapted prefix_config] else [])
             \<and> map tr_model (trainers tr) = [final])"
proof -
  from assms obtain t lc cls
    where d: "detect_last_checkpoint env training_args = Inr (t, lc)"
      and s: "select_model_class model_args training_args = Inr cls"
    unfolding completes_iff by blast
  from detect_Inr [OF d] have t: "filter is_model_load t = []" "filter is_wrap t = []"
     "concat (map trainer_of t) = []"
    by auto
  show ?thesis
    using t by (cases "lora model_args"; cases "prefix_tuning model_args")
      (simp_all add: main_runs [OF d s] stage_defs Let_def trainers_def)
qed

theorem lora_prefix_wrapping_witness:
  "completes fresh_environment adapter_ModelArgument default_DataArgument
     example_TrainingArguments
   \<and> (\<exists>cls args lora_config prefix_config.
        map tr_model (trainers (fst (main fresh_environment adapter_ModelArgument
          default_DataArgument example_TrainingArguments)))
        = [PrefixModelForCausalLM (LoRAModel (FromPretrained cls args) lora_config)
             prefix_config])"
proof -
  have h: "completes fresh_environment adapter_ModelArgument default_DataArgument
     example_TrainingArguments"
    by (simp add: completes_def main_outcome_eq fresh_environment_def
          example_TrainingArguments_def)
  have flags: "lora adapter_ModelArgument" "prefix_tuning adapter_ModelArgument"
    by (simp_all add: adapter_ModelArgument_def)
  from lora_prefix_wrapping [OF h] flags h show ?thesis
    by (auto simp add: Let_def)
qed

subsection \<open>C2: who computes the metric\<close>




subsection \<open>C3: the order of the steps\<close>

text \<open>
  Claim C3. In every run of \<open>main\<close>, whether it raises or not, the calls come in the fixed
  order of the steps: parsing, set-up, loading the model, wrapping it, loading the
  tokenizer, building the datasets, constructing the trainer, training and evaluation.
  Parsing is the first call and happens once; every call that loads a model has the
  parsing before it; every call on the trainer has the loading of the datasets and the
  construction of the trainer before it. A run that raises no error goes through the steps
  0, 1, 2, (3 if an adapter is asked for), 4, (5 if training or evaluation is asked for),
  6, (7 if training or evaluation is asked for).
\<close>

theorem step_order:
  "let tr = fst (main env model_args data_args training_args)
   in sorted (map step_of tr)
    \<and> (\<exists>rest. tr = ParseArgs # rest \<and> ParseArgs \<notin> set rest)
    \<and> (\<forall>pre e post. tr = pre @ e # post \<and> is_model_load e \<longrightarrow> ParseArgs \<in> set pre)
    \<and> (\<forall>pre e post. tr = pre @ e # post \<and> is_trainer_call e \<longrightarrow>
          (\<exists>d\<in>set pre. is_dataset_load d) \<and> (\<exists>n\<in>set pre. is_new_trainer n))
    \<and> (completes env model_args data_args training_args \<longrightarrow>
          remdups_adj (map step_of tr) =
            [0, 1, 2] @ (if lora model_args \<or> prefix_tuning model_args then [3] else []) @ [4]
            @ (if do_train training_args \<or> do_eval training_args then [5] else []) @ [6]
            @ (if do_train training_args \<or> do_eval training_args then [7] else []))"
proof -
  let ?tr = "fst (main env model_args data_args training_args)"
  have a: "sorted (map step_of ?tr)" by (rule main_sorted)
  have b: "\<exists>rest. ?tr = ParseArgs # rest \<and> ParseArgs \<notin> set rest" by (rule main_starts_with_parse)
  have c: "ParseArgs \<in> set pre" if "?tr = pre @ e # post" "is_model_load e" for pre e post
  proof -
    from b obtain rest where rest: "?tr = ParseArgs # rest" by blast
    show ?thesis
    proof (cases pre)
      case Nil
      with that rest show ?thesis by auto
    next
      case (Cons p pre')
      with that rest show ?thesis by auto
    qed
  qed
  have d: "(\<exists>d\<in>set pre. is_dataset_load d) \<and> (\<exists>n\<in>set pre. is_new_trainer n)"
    if "?tr = pre @ e # post" "is_trainer_call e" for pre e post
  proof -
    from main_trainer_calls_last [of env model_args data_args training_args]
    obtain before run where tr: "?tr = before @ run"
      and b1: "\<forall>x\<in>set before. \<not> is_trainer_call x"
      and b4: "run \<noteq> [] \<longrightarrow> (\<exists>d\<in>set before. is_dataset_load d) \<and> (\<exists>n\<in>set before. is_new_trainer n)"
      by blast
    from that tr have eq: "before @ run = pre @ e # post" by simp
    from split_after_prefix [OF eq b1 that(2)] have sub: "set before \<subseteq> set pre" .
    have "e \<in> set (before @ run)" unfolding eq by simp
    with b1 that(2) have "run \<noteq> []" by auto
    with b4 sub show ?thesis by blast
  qed
  have e: "completes env model_args data_args training_args \<longrightarrow>
          remdups_adj (map step_of ?tr) =
            [0, 1, 2] @ (if lora model_args \<or> prefix_tuning model_args then [3] else []) @ [4]
            @ (if do_train training_args \<or> do_eval training_args then [5] else []) @ [6]
            @ (if do_train training_args \<or> do_eval training_args then [7] else [])"
    using main_steps_when_complete by blast
  from a b c d e show ?thesis unfolding Let_def by blast
qed

theorem step_order_witness:
  "completes fresh_environment adapter_ModelArgument default_DataArgument
     example_TrainingArguments
   \<and> sorted (map step_of (fst (main fresh_environment adapter_ModelArgument
        default_DataArgument example_TrainingArguments)))
   \<and> remdups_adj (map step_of (fst (main fresh_environment adapter_ModelArgument
        default_DataArgument example_TrainingArguments))) = [0, 1, 2, 3, 4, 5, 6, 7]"
proof -
  have h: "completes fresh_environment adapter_ModelArgument default_DataArgument
     example_TrainingArguments"
    by (simp add: completes_def main_outcome_eq fresh_environment_def
          example_TrainingArguments_def)
  have flags: "lora adapter_ModelArgument" "do_train example_TrainingArguments"
    by (simp_all add: adapter_ModelArgument_def example_TrainingArguments_def)
  from step_order [where env = fresh_environment and model_args = adapter_ModelArgument
      and data_args = default_DataArgument and training_args = example_TrainingArguments] h flags
  show ?thesis unfolding Let_def by (simp only: simp_thms if_True append.simps)
qed

subsection \<open>C4: training and evaluation\<close>

text \<open>
  Claim C4. In every run of \<open>main\<close> that raises no error, the calls on the trainer are:
  when \<open>do_train\<close> holds, \<open>train(resume_from_checkpoint=last_checkpoint)\<close>, \<open>save_model\<close>,
  \<open>log_metrics\<close>, \<open>save_metrics\<close> and \<open>save_state\<close>, in this order, and none of them
  otherwise; then, when \<open>do_eval\<close> holds, \<open>evaluate\<close> and \<open>log_metrics\<close>, and none of them
  otherwise. So \<open>train\<close> is called exactly when \<open>do_train\<close> holds, \<open>evaluate\<close> exactly
  when \<open>do_eval\<close> holds, and training comes before evaluation. \<open>last_checkpoint\<close> is what
  lines 95-98 found.
\<close>

theorem trainer_calls:
  assumes "completes env model_args data_args training_args"
  shows "let tr = fst (main env model_args data_args training_args);
             last_checkpoint =
               (if isdir env (output_dir training_args) \<and> do_train training_args
                   \<and> \<not> overwrite_output_dir training_args
                then get_last_checkpoint env (output_dir training_args) else None)
         in filter is_trainer_call tr =
              (if do_train training_args
               then [Train last_checkpoint,
                     SaveModel (tensor_parallel_degree training_args > 1),
                     LogMetrics ''train'', SaveMetrics ''train'', SaveState]
               else [])
              @ (if do_eval training_args then [Evaluate, LogMetrics ''test''] else [])
          \<and> ((\<exists>c. Train c \<in> set tr) \<longleftrightarrow> do_train training_args)
          \<and> (Evaluate \<in> set tr \<longleftrightarrow> do_eval training_args)"
proof -
  let ?tr = "fst (main env model_args data_args training_args)"
  let ?lc = "if isdir env (output_dir training_args) \<and> do_train training_args
                   \<and> \<not> overwrite_output_dir training_args
                then get_last_checkpoint env (output_dir training_args) else None"
  let ?calls = "(if do_train training_args
               then [Train ?lc,
                     SaveModel (tensor_parallel_degree training_args > 1),
                     LogMetrics ''train'', SaveMetrics ''train'', SaveState]
               else [])
              @ (if do_eval training_args then [Evaluate, LogMetrics ''test''] else [])"
  from assms obtain t lc cls
    where d: "detect_last_checkpoint env training_args = Inr (t, lc)"
      and s: "select_model_class model_args training_args = Inr cls"
    unfolding completes_iff by blast
  from detect_Inr [OF d] have t: "filter is_trainer_call t = []" and lc: "lc = ?lc"
    by auto
  have eq: "filter is_trainer_call ?tr = ?calls"
    using t lc by (simp add: main_runs [OF d s] stage_defs Let_def)
  have mem: "e \<in> set ?tr \<longleftrightarrow> e \<in> set ?calls" if "is_trainer_call e" for e
  proof -
    from that have "e \<in> set ?tr \<longleftrightarrow> e \<in> set (filter is_trainer_call ?tr)" by simp
    then show ?thesis unfolding eq .
  qed
  have tr: "(\<exists>c. Train c \<in> set ?tr) \<longleftrightarrow> do_train training_args"
  proof -
    have "Train c \<in> set ?tr \<longleftrightarrow> do_train training_args \<and> c = ?lc" for c
      using mem [of "Train c"] by auto
    then show ?thesis by blast
  qed
  have ev: "Evaluate \<in> set ?tr \<longleftrightarrow> do_eval training_args"
    using mem [of Evaluate] by auto
  from eq tr ev show ?thesis unfolding Let_def by blast
qed

theorem trainer_calls_witness:
  "completes fresh_environment default_ModelArgument default_DataArgument
     example_TrainingArguments
   \<and> filter is_trainer_call (fst (main fresh_environment default_ModelArgument
        default_DataArgument example_TrainingArguments))
     = [Train None, SaveModel False, LogMetrics ''train'', SaveMetrics ''train'', SaveState,
        Evaluate, LogMetrics ''test'']"
proof -
  have h: "completes fresh_environment default_ModelArgument default_DataArgument
     example_TrainingArguments"
    by (simp add: completes_def main_outcome_eq fresh_environment_def
          example_TrainingArguments_def)
  have args: "do_train example_TrainingArguments" "do_eval example_TrainingArguments"
    "\<not> isdir fresh_environment (output_dir example_TrainingArguments)"
    "\<not> tensor_parallel_degree example_TrainingArguments > 1"
    by (simp_all add: example_TrainingArguments_def fresh_environment_def)
  from trainer_calls [OF h] args h show ?thesis
    unfolding Let_def by (simp only: simp_thms if_True if_False append.simps)
qed

subsection \<open>C5: the datasets\<close>



subsection \<open>C6: one identifier for model and tokenizer\<close>

text \<open>
  Claim C6. In every run of \<open>main\<close> that raises no error, the model is loaded by exactly
  one \<open>from_pretrained\<close> call and the tokenizer by exactly one \<open>from_pretrained\<close> call, and
  both calls are given \<open>model_args.model_name_or_path\<close>.
\<close>

theorem same_identifier:
  assumes "completes env model_args data_args training_args"
  shows "\<exists>cls args.
           filter is_model_load (fst (main env model_args data_args training_args))
             = [ModelFromPretrained cls args]
         \<and> fp_name args = model_name_or_path model_args
         \<and> (\<exists>side. filter is_tokenizer_load (fst (main env model_args data_args training_args))
             = [TokenizerFromPretrained (model_name_or_path model_args) side])"
proof -
  from assms obtain t lc cls
    where d: "detect_last_checkpoint env training_args = Inr (t, lc)"
      and s: "select_model_class model_args training_args = Inr cls"
    unfolding completes_iff by blast
  from detect_Inr [OF d] have t: "filter is_model_load t = []" "filter is_tokenizer_load t = []"
    by auto
  show ?thesis
    using t by (simp add: main_runs [OF d s] stage_defs Let_def)
qed

theorem same_identifier_witness:
  "completes fresh_environment default_ModelArgument default_DataArgument
     example_TrainingArguments
   \<and> (\<exists>cls args.
         filter is_model_load (fst (main fresh_environment default_ModelArgument
           default_DataArgument example_TrainingArguments))
           = [ModelFromPretrained cls args]
       \<and> fp_name args = ''facebook/llama-7b''
       \<and> (\<exists>side. filter is_tokenizer_load (fst (main fresh_environment
             default_ModelArgument default_DataArgument example_TrainingArguments))
             = [TokenizerFromPretrained ''facebook/llama-7b'' side]))"
proof -
  have h: "completes fresh_environment default_ModelArgument default_DataArgument
     example_TrainingArguments"
    by (simp add: completes_def main_outcome_eq fresh_environment_def
          example_TrainingArguments_def)
  have name: "model_name_or_path default_ModelArgument = ''facebook/llama-7b''"
    by (simp add: default_ModelArgument_def)
  from same_identifier [OF h] h show ?thesis
    unfolding name by blast
qed

subsection \<open>C7: the guard on the output directory\<close>

text \<open>
  Claim C7, as amended. \<open>main\<close> raises the \<open>ValueError\<close> about the output directory
  (\<open>Output directory (...) already exists and is not empty\<close>) if and only if
  \<open>training_args.output_dir\<close> is a directory, \<open>do_train\<close> holds, \<open>overwrite_output_dir\<close> does
  not, \<open>get_last_checkpoint\<close> returns \<open>None\<close> for the directory and the directory has
  strictly more than one entry; in particular a directory with exactly one entry and no
  checkpoint does not raise this error. \<open>main\<close> raises some \<open>ValueError\<close> if and only if
  that condition holds or the pipeline guard of lines 119-121 fires, and whenever it
  raises, no model has been loaded.
\<close>

theorem output_dir_guard:
  "let outcome = snd (main env model_args data_args training_args);
       dir = output_dir training_args;
       occupied = (isdir env dir \<and> do_train training_args
                   \<and> \<not> overwrite_output_dir training_args
                   \<and> get_last_checkpoint env dir = None \<and> length (listdir env dir) > 1)
   in (outcome = Inl (ValueError (output_dir_message dir)) \<longleftrightarrow> occupied)
    \<and> (is_ValueError outcome \<longleftrightarrow>
         occupied \<or> (pipeline_parallel_degree training_args > 1
                      \<and> eval_with_do_generation model_args \<and> do_eval training_args))
    \<and> (is_ValueError outcome \<longrightarrow>
         filter is_model_load (fst (main env model_args data_args training_args)) = [])
    \<and> (isdir env dir \<and> length (listdir env dir) = 1 \<and> get_last_checkpoint env dir = None
         \<longrightarrow> outcome \<noteq> Inl (ValueError (output_dir_message dir)))"
proof -
  let ?dir = "output_dir training_args"
  let ?outcome = "snd (main env model_args data_args training_args)"
  let ?occupied = "isdir env ?dir \<and> do_train training_args
                   \<and> \<not> overwrite_output_dir training_args
                   \<and> get_last_checkpoint env ?dir = None \<and> length (listdir env ?dir) > 1"
  have a: "?outcome = Inl (ValueError (output_dir_message ?dir)) \<longleftrightarrow> ?occupied"
    using messages_differ [of ?dir] by (simp add: main_outcome_eq)
  have b: "is_ValueError ?outcome \<longleftrightarrow>
         ?occupied \<or> (pipeline_parallel_degree training_args > 1
                      \<and> eval_with_do_generation model_args \<and> do_eval training_args)"
    by (simp add: main_outcome_eq)
  have c: "is_ValueError ?outcome \<longrightarrow>
         filter is_model_load (fst (main env model_args data_args training_args)) = []"
    using raise_no_model_load by blast
  from a have d: "isdir env ?dir \<and> length (listdir env ?dir) = 1 \<and> get_last_checkpoint env ?dir = None
         \<longrightarrow> ?outcome \<noteq> Inl (ValueError (output_dir_message ?dir))"
    by auto
  from a b c d show ?thesis unfolding Let_def by blast
qed

theorem output_dir_guard_witness:
  "snd (main (used_environment [''a'', ''b'']) default_ModelArgument default_DataArgument
     example_TrainingArguments) = Inl (ValueError (output_dir_message ''out''))
   \<and> filter is_model_load (fst (main (used_environment [''a'', ''b''])
       default_ModelArgument default_DataArgument example_TrainingArguments)) = []
   \<and> snd (main (used_environment [''a'']) default_ModelArgument default_DataArgument
     example_TrainingArguments) \<noteq> Inl (ValueError (output_dir_message ''out''))"
proof -
  have two: "isdir (used_environment [''a'', ''b'']) (output_dir example_TrainingArguments)
      \<and> do_train example_TrainingArguments
      \<and> \<not> overwrite_output_dir example_TrainingArguments
      \<and> get_last_checkpoint (used_environment [''a'', ''b''])
          (output_dir example_TrainingArguments) = None
      \<and> length (listdir (used_environment [''a'', ''b''])
          (output_dir example_TrainingArguments)) > 1"
    by (simp add: used_environment_def example_TrainingArguments_def)
  have one: "isdir (used_environment [''a'']) (output_dir example_TrainingArguments)
      \<and> length (listdir (used_environment [''a''])
          (output_dir example_TrainingArguments)) = 1
      \<and> get_last_checkpoint (used_environment [''a''])
          (output_dir example_TrainingArguments) = None"
    by (simp add: used_environment_def example_TrainingArguments_def)
  have dir: "output_dir example_TrainingArguments = ''out''"
    by (simp add: example_TrainingArguments_def)
  from output_dir_guard [where env = "used_environment [''a'', ''b'']" and model_args = default_ModelArgument
      and data_args = default_DataArgument and training_args = example_TrainingArguments] two
  have a: "snd (main (used_environment [''a'', ''b'']) default_ModelArgument
      default_DataArgument example_TrainingArguments)
        = Inl (ValueError (output_dir_message (output_dir example_TrainingArguments)))
     \<and> filter is_model_load (fst (main (used_environment [''a'', ''b''])
       default_ModelArgument default_DataArgument example_TrainingArguments)) = []"
    unfolding Let_def by blast
  from output_dir_guard [where env = "used_environment [''a'']" and model_args = default_ModelArgument
      and data_args = default_DataArgument and training_args = example_TrainingArguments] one
  have b: "snd (main (used_environment [''a'']) default_ModelArgument default_DataArgument
     example_TrainingArguments)
       \<noteq> Inl (ValueError (output_dir_message (output_dir example_TrainingArguments)))"
    unfolding Let_def by blast
  from a b show ?thesis unfolding dir by blast
qed

text \<open>
  The claim as stated fails in both of its parts where the pipeline guard fires. With two
  pipeline stages, evaluation with generation, and an output directory that holds exactly
  one entry and no checkpoint, \<open>main\<close> raises a \<open>ValueError\<close> before any model is loaded,
  although the directory does not hold more than one entry.
\<close>

theorem output_dir_guard_counterexample:
  "is_ValueError (snd (main (used_environment [''a'']) default_ModelArgument
      default_DataArgument pipeline_TrainingArguments))
   \<and> filter is_model_load (fst (main (used_environment [''a'']) default_ModelArgument
      default_DataArgument pipeline_TrainingArguments)) = []
   \<and> isdir (used_environment [''a'']) (output_dir pipeline_TrainingArguments)
   \<and> get_last_checkpoint (used_environment [''a''])
        (output_dir pipeline_TrainingArguments) = None
   \<and> length (listdir (used_environment [''a'']) (output_dir pipeline_TrainingArguments)) = 1"
proof -
  have r: "is_ValueError (snd (main (used_environment [''a'']) default_ModelArgument
      default_DataArgument pipeline_TrainingArguments))"
    by (simp add: main_outcome_eq used_environment_def pipeline_TrainingArguments_def
          example_TrainingArguments_def default_ModelArgument_def)
  from r raise_no_model_load [OF r] show ?thesis
    by (simp add: used_environment_def pipeline_TrainingArguments_def
          example_TrainingArguments_def)
qed

subsection \<open>C8: the pipeline guard and the model class\<close>

text \<open>
  Claim C8. If \<open>pipeline_parallel_degree > 1\<close> and \<open>eval_with_do_generation\<close> and \<open>do_eval\<close>
  all hold, \<open>main\<close> raises a \<open>ValueError\<close> and no model has been loaded; the error is the
  one of line 121 unless the guard on the output directory (lines 99-103) has fired
  before. Otherwise, when that guard does not fire, \<open>main\<close> raises nothing and makes
  exactly one \<open>from_pretrained\<close> call that loads a model: on \<open>LlamaForCausalLMPipe\<close> when
  \<open>pipeline_parallel_degree > 1\<close> and on \<open>AutoModelForCausalLM\<close> when
  \<open>pipeline_parallel_degree \<le> 1\<close>; and when that guard fires, no model is loaded at all.
  So in no run is a model loaded on another class than the one the claim names.
\<close>

theorem pipeline_guard_and_model_class:
  "let tr = fst (main env model_args data_args training_args);
       outcome = snd (main env model_args data_args training_args);
       dir = output_dir training_args;
       occupied = (isdir env dir \<and> do_train training_args
                   \<and> \<not> overwrite_output_dir training_args
                   \<and> get_last_checkpoint env dir = None \<and> length (listdir env dir) > 1);
       pipeline = (pipeline_parallel_degree training_args > 1);
       generation = (eval_with_do_generation model_args \<and> do_eval training_args);
       expected = (if pipeline then LlamaForCausalLMPipe else AutoModelForCausalLM)
   in (pipeline \<and> generation \<longrightarrow> is_ValueError outcome \<and> filter is_model_load tr = [])
    \<and> (pipeline \<and> generation \<and> \<not> occupied \<longrightarrow> outcome = Inl (ValueError pipeline_message))
    \<and> (\<not> (pipeline \<and> generation) \<longrightarrow>
         (\<not> occupied \<longrightarrow>
            outcome = Inr ()
            \<and> (\<exists>args. filter is_model_load tr = [ModelFromPretrained expected args]))
         \<and> (occupied \<longrightarrow> is_ValueError outcome \<and> filter is_model_load tr = [])
         \<and> (\<forall>cls args. ModelFromPretrained cls args \<in> set tr \<longrightarrow> cls = expected)
         \<and> (completes env model_args data_args training_args \<longrightarrow>
              (\<exists>args. filter is_model_load tr = [ModelFromPretrained expected args])))"
proof -
  let ?tr = "fst (main env model_args data_args training_args)"
  let ?outcome = "snd (main env model_args data_args training_args)"
  let ?dir = "output_dir training_args"
  let ?occupied = "isdir env ?dir \<and> do_train training_args
                   \<and> \<not> overwrite_output_dir training_args
                   \<and> get_last_checkpoint env ?dir = None \<and> length (listdir env ?dir) > 1"
  let ?pipeline = "pipeline_parallel_degree training_args > 1"
  let ?generation = "eval_with_do_generation model_args \<and> do_eval training_args"
  let ?expected = "if ?pipeline then LlamaForCausalLMPipe else AutoModelForCausalLM"
  have raise: "is_ValueError ?outcome" if "?pipeline \<and> ?generation"
    using that by (simp add: main_outcome_eq)
  have a: "?pipeline \<and> ?generation \<longrightarrow> is_ValueError ?outcome \<and> filter is_model_load ?tr = []"
    using raise raise_no_model_load by blast
  have a': "?pipeline \<and> ?generation \<and> \<not> ?occupied \<longrightarrow> ?outcome = Inl (ValueError pipeline_message)"
    by (simp add: main_outcome_eq)
  have loaded: "filter is_model_load ?tr = [] \<and> \<not> completes env model_args data_args training_args
                \<or> (\<exists>args. filter is_model_load ?tr = [ModelFromPretrained ?expected args])"
  proof (cases "is_ValueError ?outcome")
    case True
    then show ?thesis using raise_no_model_load by (auto simp add: completes_def)
  next
    case False
    then have "completes env model_args data_args training_args"
      by (cases ?outcome) (auto simp add: completes_def elim: is_ValueError.elims)
    then obtain t lc cls
      where d: "detect_last_checkpoint env training_args = Inr (t, lc)"
        and s: "select_model_class model_args training_args = Inr cls"
      unfolding completes_iff by blast
    from detect_Inr [OF d] have t: "filter is_model_load t = []" by auto
    from s have cls: "cls = ?expected" by (simp add: select_Inr)
    have "\<exists>args. filter is_model_load ?tr = [ModelFromPretrained cls args]"
      using t by (simp add: main_runs [OF d s] stage_defs Let_def)
    with cls show ?thesis by simp
  qed
  have b: "\<forall>cls args. ModelFromPretrained cls args \<in> set ?tr \<longrightarrow> cls = ?expected"
  proof (intro allI impI)
    fix cls args
    assume "ModelFromPretrained cls args \<in> set ?tr"
    then have mem: "ModelFromPretrained cls args \<in> set (filter is_model_load ?tr)" by simp
    from loaded show "cls = ?expected"
    proof (elim disjE conjE exE)
      assume f: "filter is_model_load ?tr = []"
      from mem show ?thesis unfolding f by simp
    next
      fix a assume f: "filter is_model_load ?tr = [ModelFromPretrained ?expected a]"
      from mem show ?thesis unfolding f by simp
    qed
  qed
  have c: "completes env model_args data_args training_args \<longrightarrow>
              (\<exists>args. filter is_model_load ?tr = [ModelFromPretrained ?expected args])"
    using loaded by blast
  have runs: "?outcome = Inr ()" if "\<not> (?pipeline \<and> ?generation)" and "\<not> ?occupied"
    using that by (simp add: main_outcome_eq)
  have d: "\<not> (?pipeline \<and> ?generation) \<longrightarrow> \<not> ?occupied \<longrightarrow>
      ?outcome = Inr ()
      \<and> (\<exists>args. filter is_model_load ?tr = [ModelFromPretrained ?expected args])"
  proof (intro impI)
    assume n: "\<not> (?pipeline \<and> ?generation)" and o: "\<not> ?occupied"
    from runs [OF n o] have r: "?outcome = Inr ()" .
    then have "completes env model_args data_args training_args"
      by (simp only: completes_def)
    with c r show "?outcome = Inr ()
      \<and> (\<exists>args. filter is_model_load ?tr = [ModelFromPretrained ?expected args])"
      by blast
  qed
  have stopped: "is_ValueError ?outcome" if "?occupied"
    using that by (simp add: main_outcome_eq)
  have e: "?occupied \<longrightarrow> is_ValueError ?outcome \<and> filter is_model_load ?tr = []"
    using stopped raise_no_model_load by blast
  from a a' b c d e show ?thesis unfolding Let_def by blast
qed

theorem pipeline_guard_and_model_class_witness:
  "is_ValueError (snd (main fresh_environment default_ModelArgument default_DataArgument
      pipeline_TrainingArguments))
   \<and> filter is_model_load (fst (main fresh_environment default_ModelArgument
      default_DataArgument pipeline_TrainingArguments)) = []
   \<and> snd (main fresh_environment no_generation_ModelArgument default_DataArgument
        pipeline_TrainingArguments) = Inr ()
   \<and> (\<exists>args. filter is_model_load (fst (main fresh_environment no_generation_ModelArgument
        default_DataArgument pipeline_TrainingArguments))
        = [ModelFromPretrained LlamaForCausalLMPipe args])
   \<and> snd (main fresh_environment default_ModelArgument default_DataArgument
        example_TrainingArguments) = Inr ()
   \<and> (\<exists>args. filter is_model_load (fst (main fresh_environment default_ModelArgument
        default_DataArgument example_TrainingArguments))
        = [ModelFromPretrained AutoModelForCausalLM args])"
proof -
  have p: "pipeline_parallel_degree pipeline_TrainingArguments > 1
      \<and> eval_with_do_generation default_ModelArgument \<and> do_eval pipeline_TrainingArguments"
    by (simp add: pipeline_TrainingArguments_def example_TrainingArguments_def
          default_ModelArgument_def)
  have q: "pipeline_parallel_degree pipeline_TrainingArguments > 1"
      "\<not> eval_with_do_generation no_generation_ModelArgument"
      "\<not> isdir fresh_environment (output_dir pipeline_TrainingArguments)"
    by (simp_all add: pipeline_TrainingArguments_def example_TrainingArguments_def
          no_generation_ModelArgument_def default_ModelArgument_def fresh_environment_def)
  have r: "\<not> pipeline_parallel_degree example_TrainingArguments > 1"
      "\<not> isdir fresh_environment (output_dir example_TrainingArguments)"
    by (simp_all add: example_TrainingArguments_def fresh_environment_def)
  from pipeline_guard_and_model_class [where env = fresh_environment and model_args = default_ModelArgument
      and data_args = default_DataArgument and training_args = pipeline_TrainingArguments] p
  have a: "is_ValueError (snd (main fresh_environment default_ModelArgument
      default_DataArgument pipeline_TrainingArguments))
   \<and> filter is_model_load (fst (main fresh_environment default_ModelArgument
      default_DataArgument pipeline_TrainingArguments)) = []"
    unfolding Let_def by blast
  from pipeline_guard_and_model_class [where env = fresh_environment and model_args = no_generation_ModelArgument
      and data_args = default_DataArgument and training_args = pipeline_TrainingArguments] q
  have b: "snd (main fresh_environment no_generation_ModelArgument default_DataArgument
        pipeline_TrainingArguments) = Inr ()
   \<and> (\<exists>args. filter is_model_load (fst (main fresh_environment no_generation_ModelArgument
        default_DataArgument pipeline_TrainingArguments))
        = [ModelFromPretrained LlamaForCausalLMPipe args])"
    unfolding Let_def by (simp only: simp_thms if_True)
  from pipeline_guard_and_model_class [where env = fresh_environment and model_args = default_ModelArgument
      and data_args = default_DataArgument and training_args = example_TrainingArguments] r
  have c: "snd (main fresh_environment default_ModelArgument default_DataArgument
        example_TrainingArguments) = Inr ()
   \<and> (\<exists>args. filter is_model_load (fst (main fresh_environment default_ModelArgument
        default_DataArgument example_TrainingArguments))
        = [ModelFromPretrained AutoModelForCausalLM args])"
    unfolding Let_def by (simp only: simp_thms if_False)
  from a b c show ?thesis by blast
qed

subsection \<open>C9: the dtype\<close>



end
